theory Spec2Isabelle
  imports Complex_Main
begin

section \<open>JavaScript strings and numbers\<close>

text \<open>
  A JavaScript string is modelled as an Isabelle \<open>string\<close> whose characters are read as the
  code points U+0000 .. U+00FF (one character per UTF-16 code unit). Strict equality
  \<^verbatim>\<open>===\<close> of two strings is equality of the character lists. Strings with a code unit
  from U+0100 on are outside the model: there \<^verbatim>\<open>toLowerCase\<close> is no longer a
  character-by-character map (U+0130 becomes two code units) and \<^verbatim>\<open>\s\<close> matches further
  characters, so every statement below about all strings is a statement about the
  strings of code points below U+0100.
\<close>

text \<open>
  \<^verbatim>\<open>String.prototype.toLowerCase\<close> on one code point below U+0100: the letters A .. Z and
  the upper-case letters U+00C0 .. U+00DE (the multiplication sign U+00D7 apart) move up by
  0x20; every other code point is left as it is.
\<close>

definition toLowerCase_char :: "char \<Rightarrow> char" where
  "toLowerCase_char c =
     (let n = (of_char c :: nat)
      in if 0x41 \<le> n \<and> n \<le> 0x5A then char_of (n + 0x20)
         else if n = 0xD7 then c
         else if 0xC0 \<le> n \<and> n \<le> 0xDE then char_of (n + 0x20)
         else c)"

definition toLowerCase :: "string \<Rightarrow> string" where
  "toLowerCase s = map toLowerCase_char s"

text \<open>
  The character class \<^verbatim>\<open>[\s-]\<close> below U+0100: TAB, LF, VT, FF, CR, SPACE, NO-BREAK SPACE,
  and the hyphen.
\<close>

definition is_sep :: "char \<Rightarrow> bool" where
  "is_sep c =
     (let n = (of_char c :: nat)
      in (0x09 \<le> n \<and> n \<le> 0x0D) \<or> n = 0x20 \<or> n = 0xA0 \<or> n = 0x2D)"

text \<open>\<^verbatim>\<open>s.replace(/[\s-]/g, '_')\<close>: the global flag replaces every match, and a match of
  the class is one character.\<close>

definition replace_seps :: "string \<Rightarrow> string" where
  "replace_seps s = map (\<lambda>c. if is_sep c then CHR ''_'' else c) s"

text \<open>\<^verbatim>\<open>const normalized = constraint.toLowerCase().replace(/[\s-]/g, '_')\<close>\<close>

definition normalized :: "string \<Rightarrow> string" where
  "normalized constraint = replace_seps (toLowerCase constraint)"

text \<open>
  The normalization as the specification words it: lower-case, then every maximal run of
  whitespace and hyphen characters becomes one underscore. It is here only to be compared
  with \<open>normalized\<close>.
\<close>

function collapse_runs :: "string \<Rightarrow> string" where
  "collapse_runs [] = []"
| "collapse_runs (c # cs) =
     (if is_sep c then CHR ''_'' # collapse_runs (dropWhile is_sep cs)
      else c # collapse_runs cs)"
  by pat_completeness auto
termination
  by (relation "measure length") (auto simp: length_dropWhile_le less_Suc_eq_le)

definition spec_normalize :: "string \<Rightarrow> string" where
  "spec_normalize k = collapse_runs (toLowerCase k)"

text \<open>
  The occurrence index is the position of a constraint in an array, a natural number; a
  template literal renders it in decimal, without leading zeros.
\<close>

function string_of_nat :: "nat \<Rightarrow> string" where
  "string_of_nat n =
     (if n < 10 then [char_of (48 + n)]
      else string_of_nat (n div 10) @ [char_of (48 + n mod 10)])"
  by pat_completeness auto
termination
  by (relation "measure id") auto

declare string_of_nat.simps [simp del]

section \<open>Graph elements\<close>

text \<open>
  The \<^verbatim>\<open>data\<close> object of an element. Every element of this program has an \<^verbatim>\<open>id\<close>; the
  other fields are present on some elements only, so they are optional.
\<close>

record element_data =
  d_id :: string
  d_source :: "string option"
  d_target :: "string option"
  d_label :: "string option"
  d_constraint :: "string option"

record position =
  pos_x :: real
  pos_y :: real

text \<open>An element definition as handed to the rendering engine.\<close>

record ElementDefinition =
  e_data :: element_data
  e_position :: "position option"
  e_locked :: "bool option"
  e_classes :: "string option"

section \<open>The constraint map\<close>

text \<open>\<^verbatim>\<open>{ data: { id, source, target }, classes }\<close>\<close>

definition edge_def :: "string \<Rightarrow> string \<Rightarrow> string \<Rightarrow> string \<Rightarrow> ElementDefinition" where
  "edge_def i source target cls =
     \<lparr>e_data = \<lparr>d_id = i, d_source = Some source, d_target = Some target,
                d_label = None, d_constraint = None\<rparr>,
      e_position = None, e_locked = None, e_classes = Some cls\<rparr>"

text \<open>\<^verbatim>\<open>{ data: { id, source, target, label }, classes }\<close>\<close>

definition labelled_edge_def ::
  "string \<Rightarrow> string \<Rightarrow> string \<Rightarrow> string \<Rightarrow> string \<Rightarrow> ElementDefinition" where
  "labelled_edge_def i source target lbl cls =
     \<lparr>e_data = \<lparr>d_id = i, d_source = Some source, d_target = Some target,
                d_label = Some lbl, d_constraint = None\<rparr>,
      e_position = None, e_locked = None, e_classes = Some cls\<rparr>"

text \<open>\<^verbatim>\<open>const idPrefix = `${source}->${target}-${normalized}-${index}`\<close>\<close>

definition idPrefix :: "string \<Rightarrow> string \<Rightarrow> string \<Rightarrow> nat \<Rightarrow> string" where
  "idPrefix source target nk index =
     source @ ''->'' @ target @ ''-'' @ nk @ ''-'' @ string_of_nat index"

text \<open>The \<^verbatim>\<open>switch\<close> on the normalized kind, case by case in the order of the source.\<close>

definition getConstraintEdges ::
  "string \<Rightarrow> string \<Rightarrow> string \<Rightarrow> nat \<Rightarrow> ElementDefinition list" where
  "getConstraintEdges constraint source target index =
     (let nk = normalized constraint;
          p = idPrefix source target nk index
      in if nk = ''succession'' then
           [edge_def (p @ ''-main'') source target ''succession-main'',
            edge_def (p @ ''-sourcecircle'') source target ''succession-source-circle'',
            edge_def (p @ ''-targettriangle'') source target ''succession-target-triangle'',
            edge_def (p @ ''-targetcircle'') source target ''succession-target-circle'']
         else if nk = ''precedence'' then
           [edge_def (p @ ''-triangle'') source target ''precedence-arrow'',
            edge_def (p @ ''-circle'') source target ''precedence-circle-offset'']
         else if nk = ''response'' then
           [edge_def p source target ''line-single source-circle-target-triangle'']
         else if nk = ''neg_precedence'' then
           [edge_def (p @ ''-circle'') source target ''line-negative compound-arrow-circle'',
            edge_def (p @ ''-triangle'') source target ''line-negative compound-arrow-triangle'']
         else if nk = ''neg_response'' then
           [edge_def p source target ''line-negative source-circle-target-triangle'']
         else if nk = ''not_coexistence'' then
           [edge_def p source target ''line-negative both-circle'']
         else if nk = ''resp_absence'' then
           [edge_def p source target ''line-negative source-circle'']
         else if nk = ''coexistence'' then
           [edge_def p source target ''line-single both-circle'']
         else if nk = ''chain_succession'' then
           [edge_def (p @ ''-1'') source target ''line-triple-1'',
            edge_def (p @ ''-2'') source target
              ''line-triple-2 source-circle compound-arrow-circle'',
            edge_def (p @ ''-2'') source target ''line-triple-2 compound-arrow-triangle'',
            edge_def (p @ ''-3'') source target ''line-triple-3'']
         else if nk = ''chain_response'' then
           [edge_def (p @ ''-1'') source target ''line-triple-1'',
            edge_def (p @ ''-2'') source target ''line-triple-2 source-circle-target-triangle'',
            edge_def (p @ ''-3'') source target ''line-triple-3'']
         else if nk = ''chain_precedence'' then
           [edge_def (p @ ''-1'') source target ''line-triple-1'',
            edge_def (p @ ''-2'') source target ''line-triple-2 compound-arrow-circle'',
            edge_def (p @ ''-2'') source target ''line-triple-2 compound-arrow-triangle'',
            edge_def (p @ ''-3'') source target ''line-triple-3'']
         else if nk = ''resp_existence'' then
           [edge_def p source target ''line-single source-circle'']
         else if nk = ''choice'' then
           [edge_def p source target ''line-choice'']
         else
           [labelled_edge_def p source target nk ''line-single''])"

text \<open>The kinds that have a \<^verbatim>\<open>case\<close> of their own in the switch.\<close>

definition table_kinds :: "string list" where
  "table_kinds =
     [''succession'', ''precedence'', ''response'', ''neg_precedence'', ''neg_response'',
      ''not_coexistence'', ''resp_absence'', ''coexistence'', ''chain_succession'',
      ''chain_response'', ''chain_precedence'', ''resp_existence'', ''choice'']"

section \<open>The Declare model\<close>

text \<open>
  Modelled from the spec: the type \<^verbatim>\<open>DeclareModel\<close> of \<^verbatim>\<open>../types/types\<close> is not among
  the sources; the schema is that of the model input:
  \<^verbatim>\<open>{ activities: [string], constraints: [{constraint, source, target}],
     unary: [{constraint, activity}] }\<close>.
\<close>

record BinaryConstraint =
  bc_constraint :: string
  bc_source :: string
  bc_target :: string

record UnaryConstraint =
  uc_constraint :: string
  uc_activity :: string

text \<open>
  The component inspects the shape of the model at run time (\<^verbatim>\<open>Array.isArray\<close>,
  \<^verbatim>\<open>?.\<close>, \<^verbatim>\<open>in\<close>), so a field of the model is one of four shapes: the property is
  absent (\<open>Missing\<close>); it is present with the value \<^verbatim>\<open>null\<close> or \<^verbatim>\<open>undefined\<close>
  (\<open>Nullish\<close>); it holds a value that is no array and has none of the array methods, a
  number, a boolean, a string or a plain data object (\<open>NonArray\<close>); or it holds an array
  of well-formed entries (\<open>Arr\<close>).
\<close>

datatype 'a jsfield = Missing | Nullish | NonArray | Arr "'a list"

record DeclareModel =
  activities :: "string jsfield"
  constraints :: "BinaryConstraint jsfield"
  unary :: "UnaryConstraint jsfield"

datatype js_error = TypeError

section \<open>The visualizer\<close>

subsection \<open>Layout options\<close>

text \<open>\<^verbatim>\<open>edgeLength: function (edge) { const constraint = edge.data("constraint");
  return constraint === "succession" ? 500 : 250; }\<close>\<close>

definition edgeLength :: "ElementDefinition \<Rightarrow> nat" where
  "edgeLength edge =
     (let constraint = d_constraint (e_data edge)
      in if constraint = Some ''succession'' then 500 else 250)"

text \<open>\<^verbatim>\<open>const nodeSpacingValue = edgeCount > 7 ? 150 : 40\<close>\<close>

definition nodeSpacingValue :: "nat \<Rightarrow> nat" where
  "nodeSpacingValue edgeCount = (if edgeCount > 7 then 150 else 40)"

datatype option_value =
  OString string | OBool bool | ONumber nat | OEdgeFunction "ElementDefinition \<Rightarrow> nat"

type_synonym layout_options = "(string \<times> option_value) list"

text \<open>The object literal passed to \<^verbatim>\<open>cy.layout\<close>, key by key.\<close>

definition layoutOptions :: layout_options where
  "layoutOptions =
     [(''name'', OString ''cola''),
      (''edgeLength'', OEdgeFunction edgeLength),
      (''avoidOverlap'', OBool True),
      (''animate'', OBool True),
      (''randomize'', OBool False),
      (''maxSimulationTime'', ONumber 1500)]"

subsection \<open>The rendering engine\<close>

text \<open>
  The rendering engine and its layout are external. The engine is modelled by the list of
  the elements handed to it, in insertion order; it keeps every element it is given. Of a
  layout only its contract is modelled: from the options and the elements it computes a
  position for every node that is not locked, and it returns when the relaxation is
  over. The relaxation itself is a parameter \<open>lay\<close>.
\<close>

type_synonym layout_engine = "layout_options \<Rightarrow> ElementDefinition list \<Rightarrow> string \<Rightarrow> position"

text \<open>An element is an edge when its data name a source and a target.\<close>

definition is_edge :: "ElementDefinition \<Rightarrow> bool" where
  "is_edge e = (case d_source (e_data e) of None \<Rightarrow> False
                | Some _ \<Rightarrow> (case d_target (e_data e) of None \<Rightarrow> False | Some _ \<Rightarrow> True))"

definition is_locked :: "ElementDefinition \<Rightarrow> bool" where
  "is_locked e = (e_locked e = Some True)"

definition run_layout ::
  "layout_engine \<Rightarrow> layout_options \<Rightarrow> ElementDefinition list \<Rightarrow> ElementDefinition list" where
  "run_layout lay opts els =
     map (\<lambda>e. if is_edge e then e
              else if is_locked e then e
              else e\<lparr>e_position := Some (lay opts els (d_id (e_data e)))\<rparr>) els"

text \<open>The class names of an element: its \<^verbatim>\<open>classes\<close> string, split at spaces.\<close>

fun split_spaces :: "string \<Rightarrow> string \<Rightarrow> string list" where
  "split_spaces acc [] = (if acc = [] then [] else [acc])"
| "split_spaces acc (c # cs) =
     (if c = CHR '' '' then (if acc = [] then [] else [acc]) @ split_spaces [] cs
      else split_spaces (acc @ [c]) cs)"

definition has_class :: "string \<Rightarrow> ElementDefinition \<Rightarrow> bool" where
  "has_class c e =
     (case e_classes e of None \<Rightarrow> False | Some cls \<Rightarrow> c \<in> set (split_spaces [] cls))"

text \<open>\<^verbatim>\<open>cy.nodes(".init-node")\<close>, as the positions of these nodes in the element list.\<close>

fun indices_from :: "nat \<Rightarrow> ElementDefinition list \<Rightarrow> nat list" where
  "indices_from i [] = []"
| "indices_from i (e # es) =
     (if is_edge e then indices_from (Suc i) es
      else if has_class ''init-node'' e then i # indices_from (Suc i) es
      else indices_from (Suc i) es)"

definition init_node_indices :: "ElementDefinition list \<Rightarrow> nat list" where
  "init_node_indices els = indices_from 0 els"

text \<open>\<^verbatim>\<open>cy.getElementById(id)\<close>: the element of that id, or the empty collection.\<close>

definition getElementById :: "ElementDefinition list \<Rightarrow> string \<Rightarrow> ElementDefinition option" where
  "getElementById els i = find (\<lambda>e. d_id (e_data e) = i) els"

text \<open>
  \<^verbatim>\<open>n.position(p)\<close> as a setter. The position of a locked node is immutable: on a locked
  node the setter changes nothing.
\<close>

definition set_position :: "position \<Rightarrow> ElementDefinition \<Rightarrow> ElementDefinition" where
  "set_position p n = (if is_locked n then n else n\<lparr>e_position := Some p\<rparr>)"

text \<open>\<^verbatim>\<open>s.replace(pat, rep)\<close> with a string pattern replaces the first occurrence only.\<close>

fun replace_first :: "string \<Rightarrow> string \<Rightarrow> string \<Rightarrow> string" where
  "replace_first pat rep [] = (if pat = [] then rep else [])"
| "replace_first pat rep (c # cs) =
     (if take (length pat) (c # cs) = pat then rep @ drop (length pat) (c # cs)
      else c # replace_first pat rep cs)"

subsection \<open>Assembling the elements\<close>

definition fixedInitPosition :: position where
  "fixedInitPosition = \<lparr>pos_x = 0, pos_y = 0\<rparr>"

text \<open>
  \<^verbatim>\<open>declareModel.unary?.find(u => u.constraint === "init")?.activity\<close>: the optional chain
  stops at a missing or nullish \<^verbatim>\<open>unary\<close>; any other value without a \<^verbatim>\<open>find\<close> method
  raises a TypeError.
\<close>

definition initActivity :: "DeclareModel \<Rightarrow> js_error + string option" where
  "initActivity m =
     (case unary m of
        Missing \<Rightarrow> Inr None
      | Nullish \<Rightarrow> Inr None
      | NonArray \<Rightarrow> Inl TypeError
      | Arr us \<Rightarrow> Inr (map_option uc_activity (find (\<lambda>u. uc_constraint u = ''init'') us)))"

text \<open>The callback of \<^verbatim>\<open>declareModel.activities.map\<close>.\<close>

definition activity_node :: "string option \<Rightarrow> string \<Rightarrow> ElementDefinition" where
  "activity_node ia act =
     (if Some act = ia then
        \<lparr>e_data = \<lparr>d_id = act, d_source = None, d_target = None, d_label = Some act,
                   d_constraint = None\<rparr>,
         e_position = Some fixedInitPosition, e_locked = Some True, e_classes = None\<rparr>
      else
        \<lparr>e_data = \<lparr>d_id = act, d_source = None, d_target = None, d_label = Some act,
                   d_constraint = None\<rparr>,
         e_position = None, e_locked = None, e_classes = None\<rparr>)"

definition init_node :: "string \<Rightarrow> ElementDefinition" where
  "init_node initNodeId =
     \<lparr>e_data = \<lparr>d_id = initNodeId, d_source = None, d_target = None, d_label = None,
                d_constraint = None\<rparr>,
      e_position = Some fixedInitPosition, e_locked = Some True,
      e_classes = Some ''init-node''\<rparr>"

definition init_edge :: "string \<Rightarrow> string \<Rightarrow> ElementDefinition" where
  "init_edge initNodeId activity =
     \<lparr>e_data = \<lparr>d_id = ''edge-init-'' @ activity, d_source = Some initNodeId,
                d_target = Some activity, d_label = None, d_constraint = Some ''init''\<rparr>,
      e_position = None, e_locked = None, e_classes = None\<rparr>"

text \<open>
  The \<^verbatim>\<open>forEach\<close> over the unary constraints, with the two arrays \<^verbatim>\<open>initNodes\<close> and
  \<^verbatim>\<open>initEdges\<close> it pushes to as the state.
\<close>

fun unary_forEach ::
  "UnaryConstraint list \<Rightarrow> ElementDefinition list \<times> ElementDefinition list
     \<Rightarrow> ElementDefinition list \<times> ElementDefinition list" where
  "unary_forEach [] (initNodes, initEdges) = (initNodes, initEdges)"
| "unary_forEach (u # us) (initNodes, initEdges) =
     (if uc_constraint u = ''init'' then
        (let initNodeId = ''init-'' @ uc_activity u
         in unary_forEach us
              (initNodes @ [init_node initNodeId],
               initEdges @ [init_edge initNodeId (uc_activity u)]))
      else unary_forEach us (initNodes, initEdges))"

text \<open>
  \<^verbatim>\<open>if ("unary" in declareModel) { declareModel.unary.forEach(...) }\<close>: the test is on the
  presence of the property, so a present \<^verbatim>\<open>unary\<close> that is no array raises a TypeError.
\<close>

definition unary_elements ::
  "DeclareModel \<Rightarrow> js_error + ElementDefinition list \<times> ElementDefinition list" where
  "unary_elements m =
     (case unary m of
        Missing \<Rightarrow> Inr ([], [])
      | Nullish \<Rightarrow> Inl TypeError
      | NonArray \<Rightarrow> Inl TypeError
      | Arr us \<Rightarrow> Inr (unary_forEach us ([], [])))"

text \<open>\<^verbatim>\<open>constraints.flatMap((c, i) => getConstraintEdges(c.constraint, c.source, c.target, i))\<close>,
  from position \<open>i\<close> on.\<close>

fun constraint_edges :: "nat \<Rightarrow> BinaryConstraint list \<Rightarrow> ElementDefinition list" where
  "constraint_edges i [] = []"
| "constraint_edges i (c # cs) =
     getConstraintEdges (bc_constraint c) (bc_source c) (bc_target c) i
       @ constraint_edges (Suc i) cs"

subsection \<open>Re-pinning the init nodes\<close>

text \<open>
  The \<^verbatim>\<open>forEach\<close> over \<^verbatim>\<open>cy.nodes(".init-node")\<close>. The indices come from
  \<open>init_node_indices\<close>, so they are below the length of the list, which the loop keeps.
  \<^verbatim>\<open>target.position()\<close> of an empty collection, or of an element without a position, is
  \<^verbatim>\<open>undefined\<close>, and reading \<^verbatim>\<open>pos.x\<close> then raises a TypeError. The result is the error, if
  any, and the elements as the loop left them.
\<close>

fun repin ::
  "nat list \<Rightarrow> ElementDefinition list \<Rightarrow> js_error option \<times> ElementDefinition list" where
  "repin [] els = (None, els)"
| "repin (i # is) els =
     (let n = els ! i
      in case getElementById els (replace_first ''init-'' [] (d_id (e_data n))) of
           None \<Rightarrow> (Some TypeError, els)
         | Some target \<Rightarrow>
             (case e_position target of
                None \<Rightarrow> (Some TypeError, els)
              | Some pos \<Rightarrow>
                  repin is
                    (els[i := set_position \<lparr>pos_x = pos_x pos - 0, pos_y = pos_y pos - 0\<rparr> n])))"

subsection \<open>The effect of the component\<close>

text \<open>
  What one run of the effect leaves behind: the elements handed to the engine by the two
  \<^verbatim>\<open>cy.add\<close> calls, the options the layout was run with, and the elements with their
  positions after the layout and the re-pinning.
\<close>

record session =
  assembled :: "ElementDefinition list"
  layout :: layout_options
  positioned :: "ElementDefinition list"

text \<open>
  The effect returns early without building (\<open>NoBuild\<close>), or an exception escapes it
  (\<open>Raised\<close>, with the elements that were in the engine at that moment), or it runs to
  its end (\<open>Rendered\<close>).
\<close>

datatype effect_result =
  NoBuild | Raised js_error "ElementDefinition list" | Rendered session

text \<open>The body of the effect after the guard, for the array \<open>acts\<close> of activities.\<close>

definition build :: "layout_engine \<Rightarrow> DeclareModel \<Rightarrow> string list \<Rightarrow> effect_result" where
  "build lay m acts =
     (case initActivity m of
        Inl err \<Rightarrow> Raised err []
      | Inr ia \<Rightarrow>
          (let nodes = map (activity_node ia) acts
           in case unary_elements m of
                Inl err \<Rightarrow> Raised err []
              | Inr (initNodes, initEdges) \<Rightarrow>
                  (let cy1 = nodes @ initNodes
                   in case constraints m of
                        Missing \<Rightarrow> Raised TypeError cy1
                      | Nullish \<Rightarrow> Raised TypeError cy1
                      | NonArray \<Rightarrow> Raised TypeError cy1
                      | Arr cs \<Rightarrow>
                          (let edges = constraint_edges 0 cs;
                               cy2 = cy1 @ edges @ initEdges;
                               edgeCount = length cs;
                               spacing = nodeSpacingValue edgeCount;
                               cy3 = run_layout lay layoutOptions cy2
                           in case repin (init_node_indices cy3) cy3 of
                                (Some err, cy4) \<Rightarrow> Raised err cy4
                              | (None, cy4) \<Rightarrow>
                                  Rendered \<lparr>assembled = cy2, layout = layoutOptions,
                                            positioned = cy4\<rparr>))))"

text \<open>
  \<^verbatim>\<open>if (!containerRef.current || !declareModel || !Array.isArray(declareModel.activities))
  return;\<close> and then the body. \<open>container\<close> tells whether the DOM container is there;
  a \<^verbatim>\<open>null\<close> or \<^verbatim>\<open>undefined\<close> model is \<open>None\<close>.
\<close>

definition DeclareVisualizer_effect ::
  "layout_engine \<Rightarrow> bool \<Rightarrow> DeclareModel option \<Rightarrow> effect_result" where
  "DeclareVisualizer_effect lay container declareModel =
     (if container then
        (case declareModel of
           None \<Rightarrow> NoBuild
         | Some m \<Rightarrow>
             (case activities m of
                Missing \<Rightarrow> NoBuild
              | Nullish \<Rightarrow> NoBuild
              | NonArray \<Rightarrow> NoBuild
              | Arr acts \<Rightarrow> build lay m acts))
      else NoBuild)"

text \<open>The position of the element of a given id, when there is one and it has a position.\<close>

definition position_of :: "ElementDefinition list \<Rightarrow> string \<Rightarrow> position option" where
  "position_of els i = (case getElementById els i of None \<Rightarrow> None | Some e \<Rightarrow> e_position e)"

section \<open>Example models\<close>

text \<open>Activities A and B, the unary constraint init on A, no binary constraint.\<close>

definition init_model :: DeclareModel where
  "init_model =
     \<lparr>activities = Arr [''A'', ''B''],
      constraints = Arr [],
      unary = Arr [\<lparr>uc_constraint = ''init'', uc_activity = ''A''\<rparr>]\<rparr>"

text \<open>The same with a second init constraint, on B.\<close>

definition two_init_model :: DeclareModel where
  "two_init_model =
     \<lparr>activities = Arr [''A'', ''B''],
      constraints = Arr [],
      unary = Arr [\<lparr>uc_constraint = ''init'', uc_activity = ''A''\<rparr>,
                   \<lparr>uc_constraint = ''init'', uc_activity = ''B''\<rparr>]\<rparr>"

text \<open>A model object with its activities and nothing else: \<^verbatim>\<open>{ activities: ["A"] }\<close>.\<close>

definition activities_only_model :: DeclareModel where
  "activities_only_model =
     \<lparr>activities = Arr [''A''], constraints = Missing, unary = Missing\<rparr>"

text \<open>Eight binary constraints, one more than the density threshold.\<close>

definition dense_model :: DeclareModel where
  "dense_model =
     \<lparr>activities = Arr [''A'', ''B''],
      constraints = Arr
        [\<lparr>bc_constraint = ''response'', bc_source = ''A'', bc_target = ''B''\<rparr>,
         \<lparr>bc_constraint = ''response'', bc_source = ''A'', bc_target = ''B''\<rparr>,
         \<lparr>bc_constraint = ''response'', bc_source = ''A'', bc_target = ''B''\<rparr>,
         \<lparr>bc_constraint = ''response'', bc_source = ''A'', bc_target = ''B''\<rparr>,
         \<lparr>bc_constraint = ''response'', bc_source = ''A'', bc_target = ''B''\<rparr>,
         \<lparr>bc_constraint = ''response'', bc_source = ''A'', bc_target = ''B''\<rparr>,
         \<lparr>bc_constraint = ''response'', bc_source = ''A'', bc_target = ''B''\<rparr>,
         \<lparr>bc_constraint = ''response'', bc_source = ''A'', bc_target = ''B''\<rparr>],
      unary = Arr []\<rparr>"

text \<open>One succession constraint and the init constraint on its source.\<close>

definition succession_model :: DeclareModel where
  "succession_model =
     \<lparr>activities = Arr [''A'', ''B''],
      constraints = Arr [\<lparr>bc_constraint = ''succession'', bc_source = ''A'', bc_target = ''B''\<rparr>],
      unary = Arr [\<lparr>uc_constraint = ''init'', uc_activity = ''A''\<rparr>]\<rparr>"

text \<open>A layout that puts every node it may move at the point (100, 50).\<close>

definition far_layout :: layout_engine where
  "far_layout opts els i = \<lparr>pos_x = 100, pos_y = 50\<rparr>"

section \<open>Evaluation and structure lemmas\<close>

lemmas eval_defs = getConstraintEdges_def normalized_def toLowerCase_def replace_seps_def
  toLowerCase_char_def is_sep_def idPrefix_def edge_def_def labelled_edge_def_def
  string_of_nat.simps char_of_eq_iff Let_def

lemmas effect_defs = DeclareVisualizer_effect_def build_def initActivity_def
  unary_elements_def activity_node_def init_node_def init_edge_def run_layout_def
  init_node_indices_def getElementById_def set_position_def is_edge_def is_locked_def
  has_class_def position_of_def fixedInitPosition_def Let_def

subsection \<open>Normalization\<close>

lemma is_sep_toLowerCase_char: "is_sep (toLowerCase_char c) = is_sep c"
  by (auto simp: is_sep_def toLowerCase_char_def Let_def)

lemma normalized_map:
  "normalized k = map (\<lambda>c. if is_sep c then CHR ''_'' else toLowerCase_char c) k"
  by (simp add: normalized_def replace_seps_def toLowerCase_def is_sep_toLowerCase_char)

lemma underscore_fixed: "\<not> is_sep CHR ''_''" "toLowerCase_char CHR ''_'' = CHR ''_''"
  by (simp_all add: is_sep_def toLowerCase_char_def)

lemma toLowerCase_char_idem: "toLowerCase_char (toLowerCase_char c) = toLowerCase_char c"
  by (auto simp: toLowerCase_char_def Let_def)

lemma normalized_idem: "normalized (normalized k) = normalized k"
  by (simp add: normalized_map underscore_fixed toLowerCase_char_idem is_sep_toLowerCase_char)

subsection \<open>The constraint map\<close>

lemma getConstraintEdges_nonempty: "getConstraintEdges k s t i \<noteq> []"
  by (simp add: getConstraintEdges_def Let_def)

lemma getConstraintEdges_fields:
  "e \<in> set (getConstraintEdges k s t i) \<Longrightarrow>
     d_source (e_data e) = Some s \<and> d_target (e_data e) = Some t \<and>
     d_constraint (e_data e) = None"
  by (auto simp: getConstraintEdges_def Let_def edge_def_def labelled_edge_def_def
           split: if_splits)

text \<open>Outside the two chain kinds with a stacked middle segment the ids are distinct.\<close>

lemma getConstraintEdges_distinct_ids:
  "normalized k \<noteq> ''chain_succession'' \<Longrightarrow> normalized k \<noteq> ''chain_precedence'' \<Longrightarrow>
   distinct (map (\<lambda>e. d_id (e_data e)) (getConstraintEdges k s t i))"
  by (simp add: getConstraintEdges_def Let_def edge_def_def labelled_edge_def_def)

lemma edgeLength_getConstraintEdges:
  "e \<in> set (getConstraintEdges k s t i) \<Longrightarrow> edgeLength e = 250"
  by (simp add: edgeLength_def getConstraintEdges_fields)

lemma constraint_edges_no_constraint:
  "e \<in> set (constraint_edges i cs) \<Longrightarrow> d_constraint (e_data e) = None"
  by (induction cs arbitrary: i) (auto dest: getConstraintEdges_fields)

subsection \<open>The assembly\<close>

text \<open>The loop over the unary constraints appends one node and one edge per init constraint.\<close>

lemma unary_forEach_eq:
  "unary_forEach us (ns, es) =
     (ns @ map (\<lambda>u. init_node (''init-'' @ uc_activity u))
             (filter (\<lambda>u. uc_constraint u = ''init'') us),
      es @ map (\<lambda>u. init_edge (''init-'' @ uc_activity u) (uc_activity u))
             (filter (\<lambda>u. uc_constraint u = ''init'') us))"
  by (induction us arbitrary: ns es) (simp_all add: Let_def)

lemma unary_elements_fields:
  assumes "unary_elements m = Inr (ns, es)"
  shows "(\<forall>e \<in> set ns. d_constraint (e_data e) = None) \<and>
         (\<forall>e \<in> set es. \<exists>a. e = init_edge (''init-'' @ a) a)"
  using assms
  by (auto simp: unary_elements_def unary_forEach_eq init_node_def split: jsfield.splits)

lemma activity_node_no_constraint: "d_constraint (e_data (activity_node ia a)) = None"
  by (simp add: activity_node_def)

lemma build_assembled:
  assumes "build lay m acts = Rendered r"
  shows "\<exists>ia ns es cs. initActivity m = Inr ia \<and> unary_elements m = Inr (ns, es) \<and>
           constraints m = Arr cs \<and>
           assembled r = map (activity_node ia) acts @ ns @ constraint_edges 0 cs @ es \<and>
           layout r = layoutOptions"
  using assms
  by (auto simp: build_def Let_def split: sum.splits jsfield.splits prod.splits option.splits)

lemma effect_rendered:
  assumes "DeclareVisualizer_effect lay c dm = Rendered r"
  shows "\<exists>m acts. c \<and> dm = Some m \<and> activities m = Arr acts \<and> build lay m acts = Rendered r"
  using assms
  by (auto simp: DeclareVisualizer_effect_def split: if_splits option.splits jsfield.splits)

text \<open>The guard of the effect: without a container, a model or an array of activities
  nothing is built and nothing is raised.\<close>

lemma no_build_guard:
  "DeclareVisualizer_effect lay False dm = NoBuild"
  "DeclareVisualizer_effect lay c None = NoBuild"
  "activities m = Missing \<Longrightarrow> DeclareVisualizer_effect lay c (Some m) = NoBuild"
  "activities m = Nullish \<Longrightarrow> DeclareVisualizer_effect lay c (Some m) = NoBuild"
  "activities m = NonArray \<Longrightarrow> DeclareVisualizer_effect lay c (Some m) = NoBuild"
  by (simp_all add: DeclareVisualizer_effect_def)

text \<open>The options of the layout are the same for every model.\<close>

lemma layout_options_fixed:
  "DeclareVisualizer_effect lay c dm = Rendered r \<Longrightarrow> layout r = layoutOptions"
  using build_assembled effect_rendered by blast

text \<open>A present \<^verbatim>\<open>unary\<close> that is no array raises before anything is added.\<close>

lemma unary_not_array_raises:
  "activities m = Arr acts \<Longrightarrow> unary m = NonArray \<Longrightarrow>
   DeclareVisualizer_effect lay True (Some m) = Raised TypeError []"
  "activities m = Arr acts \<Longrightarrow> unary m = Nullish \<Longrightarrow>
   DeclareVisualizer_effect lay True (Some m) = Raised TypeError []"
  by (simp_all add: DeclareVisualizer_effect_def build_def initActivity_def unary_elements_def)

text \<open>
  With init constraints on A and on B, whatever the layout computes for B, the locked
  node init-B is left at the anchor position.
\<close>

lemma second_init_node_any_layout:
  "\<exists>r. DeclareVisualizer_effect lay True (Some two_init_model) = Rendered r \<and>
       position_of (positioned r) ''B'' = Some (lay layoutOptions (assembled r) ''B'') \<and>
       position_of (positioned r) ''init-B'' = Some fixedInitPosition"
  by (simp add: two_init_model_def effect_defs)

section \<open>The claims\<close>

text \<open>
  Claim C1: for every kind of the mapping table, \<open>getConstraintEdges\<close> returns a non-empty
  sequence whose ids are pairwise distinct. The sequence is never empty
  (\<open>getConstraintEdges_nonempty\<close>), but for the kinds chain_succession and chain_precedence
  the ids are not distinct: both descriptors of the middle segment get the suffix
  \<^verbatim>\<open>-2\<close>. The theorem evaluates the code on these two kinds, from A to B at index 0.
\<close>

theorem chain_ids_collide:
  "map (\<lambda>e. d_id (e_data e)) (getConstraintEdges ''chain_succession'' ''A'' ''B'' 0) =
     [''A->B-chain_succession-0-1'', ''A->B-chain_succession-0-2'',
      ''A->B-chain_succession-0-2'', ''A->B-chain_succession-0-3''] \<and>
   \<not> distinct (map (\<lambda>e. d_id (e_data e))
        (getConstraintEdges ''chain_succession'' ''A'' ''B'' 0)) \<and>
   map (\<lambda>e. d_id (e_data e)) (getConstraintEdges ''chain_precedence'' ''A'' ''B'' 0) =
     [''A->B-chain_precedence-0-1'', ''A->B-chain_precedence-0-2'',
      ''A->B-chain_precedence-0-2'', ''A->B-chain_precedence-0-3''] \<and>
   \<not> distinct (map (\<lambda>e. d_id (e_data e))
        (getConstraintEdges ''chain_precedence'' ''A'' ''B'' 0))"
  by (simp add: eval_defs)

text \<open>
  Claim C2: the edge-length function of the layout returns the longer value 500 for every
  edge produced for a succession constraint and 250 for the edges of every other kind.
  The function reads the data field \<^verbatim>\<open>constraint\<close>, which no edge of the constraint map
  carries; the theorem runs the component on a model with one succession constraint and
  applies the edge-length function that was passed to the layout to every edge that was
  assembled: it returns 250 for each of the four succession edges.
\<close>

theorem succession_edges_short:
  "\<exists>r. DeclareVisualizer_effect lay True (Some succession_model) = Rendered r \<and>
       map_of (layout r) ''edgeLength'' = Some (OEdgeFunction edgeLength) \<and>
       map (\<lambda>e. (d_id (e_data e), edgeLength e)) (filter is_edge (assembled r)) =
         [(''A->B-succession-0-main'', 250),
          (''A->B-succession-0-sourcecircle'', 250),
          (''A->B-succession-0-targettriangle'', 250),
          (''A->B-succession-0-targetcircle'', 250),
          (''edge-init-A'', 250)]"
  by (simp add: succession_model_def layoutOptions_def edgeLength_def effect_defs eval_defs)

text \<open>
  Claim C3: when the model has more than 7 binary constraints, the layout is run with the
  node spacing 150. For the model with eight constraints the value computed from the
  count is 150, but the options the layout is run with have the six keys below and no
  node spacing among them.
\<close>

theorem node_spacing_dropped:
  "nodeSpacingValue 8 = 150 \<and>
   (\<exists>r. DeclareVisualizer_effect lay True (Some dense_model) = Rendered r \<and>
        length (filter is_edge (assembled r)) = 8 \<and>
        map fst (layout r) =
          [''name'', ''edgeLength'', ''avoidOverlap'', ''animate'', ''randomize'',
           ''maxSimulationTime''] \<and>
        map_of (layout r) ''nodeSpacing'' = None)"
  by (simp add: dense_model_def nodeSpacingValue_def layoutOptions_def effect_defs eval_defs)

text \<open>
  Claim C4, as amended: on the kinds made of code points below U+0100, normalization
  lower-cases the kind and replaces each single whitespace or hyphen character by one
  underscore, so a run of \<open>n\<close> such characters becomes \<open>n\<close> underscores and is not
  collapsed; a kind without such characters is lower-cased and nothing else.
\<close>

theorem normalized_keeps_run_length:
  "((\<forall>c \<in> set r. is_sep c) \<longrightarrow>
      normalized (a @ r @ b) =
        normalized a @ replicate (length r) CHR ''_'' @ normalized b) \<and>
   ((\<forall>c \<in> set k. \<not> is_sep c) \<longrightarrow> normalized k = toLowerCase k)"
proof (intro conjI impI)
  assume "\<forall>c \<in> set r. is_sep c"
  then have "normalized r = replicate (length r) CHR ''_''"
    by (induction r) (simp_all add: normalized_map)
  then show "normalized (a @ r @ b) =
      normalized a @ replicate (length r) CHR ''_'' @ normalized b"
    by (simp add: normalized_map)
next
  assume "\<forall>c \<in> set k. \<not> is_sep c"
  then show "normalized k = toLowerCase k"
    by (simp add: normalized_map toLowerCase_def)
qed

theorem normalized_keeps_run_length_witness:
  "normalized ''Not - CoExistence'' = ''not___coexistence'' \<and>
   normalized ''Chain  Response'' = ''chain__response'' \<and>
   normalized ''Response'' = ''response''"
proof -
  have s3: "\<forall>c \<in> set '' - ''. is_sep c" by (simp add: is_sep_def)
  have s2: "\<forall>c \<in> set ''  ''. is_sep c" by (simp add: is_sep_def)
  have n: "\<forall>c \<in> set ''Response''. \<not> is_sep c" by (simp add: is_sep_def)
  have w: "normalized ''Not'' = ''not''" "normalized ''CoExistence'' = ''coexistence''"
    "normalized ''Chain'' = ''chain''" "toLowerCase ''Response'' = ''response''"
    by (simp_all add: eval_defs)
  show ?thesis
    using normalized_keeps_run_length [of "'' - ''" "''Not''" "''CoExistence''" "''Response''"]
      normalized_keeps_run_length [of "''  ''" "''Chain''" "''Response''" "''Response''"]
      s3 s2 n w
    by simp
qed

text \<open>
  Claim C4 as it is stated, with runs collapsed to a single underscore, fails: the run
  of space, hyphen, space and the run of two spaces keep their length.
\<close>

theorem normalized_keeps_runs_counterexample:
  "normalized ''not - coexistence'' = ''not___coexistence'' \<and>
   spec_normalize ''not - coexistence'' = ''not_coexistence'' \<and>
   normalized ''not - coexistence'' \<noteq> spec_normalize ''not - coexistence'' \<and>
   normalized ''chain  response'' = ''chain__response'' \<and>
   spec_normalize ''chain  response'' = ''chain_response'' \<and>
   normalized ''chain  response'' \<noteq> spec_normalize ''chain  response''"
  by (simp add: spec_normalize_def eval_defs)

text \<open>
  Claim C5: \<open>getConstraintEdges\<close> on the kind succession from A to B at index 0 returns
  exactly four descriptors, with the ids ending in main, sourcecircle, targettriangle and
  targetcircle, in this order, each with source A and target B.
\<close>

theorem succession_A_B_0:
  "map (\<lambda>e. (d_id (e_data e), d_source (e_data e), d_target (e_data e)))
     (getConstraintEdges ''succession'' ''A'' ''B'' 0) =
   [(''A->B-succession-0-main'', Some ''A'', Some ''B''),
    (''A->B-succession-0-sourcecircle'', Some ''A'', Some ''B''),
    (''A->B-succession-0-targettriangle'', Some ''A'', Some ''B''),
    (''A->B-succession-0-targetcircle'', Some ''A'', Some ''B'')]"
  by (simp add: eval_defs)

text \<open>
  Claim C6: for a kind whose normalized form is not in the mapping table,
  \<open>getConstraintEdges\<close> returns exactly one descriptor, with the plain-line class
  \<^verbatim>\<open>line-single\<close> and the normalized kind as its label. The function is total: no kind
  raises an error.
\<close>

theorem unrecognized_kind_default:
  "normalized k \<notin> set table_kinds \<Longrightarrow>
   getConstraintEdges k s t i =
     [\<lparr>e_data = \<lparr>d_id = s @ ''->'' @ t @ ''-'' @ normalized k @ ''-'' @ string_of_nat i,
                 d_source = Some s, d_target = Some t,
                 d_label = Some (normalized k), d_constraint = None\<rparr>,
       e_position = None, e_locked = None, e_classes = Some ''line-single''\<rparr>]"
  by (simp add: getConstraintEdges_def Let_def table_kinds_def labelled_edge_def_def
        idPrefix_def)

theorem unrecognized_kind_default_witness:
  "normalized ''XYZ abc'' = ''xyz_abc'' \<and> ''xyz_abc'' \<notin> set table_kinds \<and>
   getConstraintEdges ''XYZ abc'' ''A'' ''B'' 0 =
     [\<lparr>e_data = \<lparr>d_id = ''A->B-xyz_abc-0'', d_source = Some ''A'', d_target = Some ''B'',
                 d_label = Some ''xyz_abc'', d_constraint = None\<rparr>,
       e_position = None, e_locked = None, e_classes = Some ''line-single''\<rparr>]"
proof -
  have n: "normalized ''XYZ abc'' = ''xyz_abc''"
    by (simp add: normalized_def toLowerCase_def replace_seps_def toLowerCase_char_def
          is_sep_def char_of_eq_iff)
  have h: "normalized ''XYZ abc'' \<notin> set table_kinds"
    by (simp add: n table_kinds_def)
  show ?thesis
    using unrecognized_kind_default [OF h, of "''A''" "''B''" 0] h
    by (simp add: n string_of_nat.simps char_of_eq_iff)
qed

text \<open>
  Claim C7: for every malformed model the effect builds nothing and no exception escapes
  it, also when \<^verbatim>\<open>constraints\<close> or \<^verbatim>\<open>unary\<close> is missing or no array while
  \<^verbatim>\<open>activities\<close> is an array. The guard covers the container, the model and the
  activities (\<open>no_build_guard\<close>). It does not cover the constraints: on the model
  \<^verbatim>\<open>{ activities: ["A"] }\<close> the effect adds the node A to the engine and then raises a
  TypeError.
\<close>

theorem missing_constraints_raises:
  "DeclareVisualizer_effect lay True (Some activities_only_model) =
     Raised TypeError
       [\<lparr>e_data = \<lparr>d_id = ''A'', d_source = None, d_target = None, d_label = Some ''A'',
                   d_constraint = None\<rparr>,
         e_position = None, e_locked = None, e_classes = None\<rparr>]"
  by (simp add: activities_only_model_def effect_defs)

text \<open>
  Claim C8: for the activities A and B, the unary constraint init on A and no binary
  constraint, the assembled nodes are exactly A, B and init-A, the assembled edges are
  exactly edge-init-A from init-A to A, and the node A is locked at the origin, where it
  still is after the layout.
\<close>

theorem init_model_assembled:
  "\<exists>r. DeclareVisualizer_effect lay True (Some init_model) = Rendered r \<and>
       assembled r =
         [\<lparr>e_data = \<lparr>d_id = ''A'', d_source = None, d_target = None, d_label = Some ''A'',
                     d_constraint = None\<rparr>,
           e_position = Some \<lparr>pos_x = 0, pos_y = 0\<rparr>, e_locked = Some True,
           e_classes = None\<rparr>,
          \<lparr>e_data = \<lparr>d_id = ''B'', d_source = None, d_target = None, d_label = Some ''B'',
                     d_constraint = None\<rparr>,
           e_position = None, e_locked = None, e_classes = None\<rparr>,
          \<lparr>e_data = \<lparr>d_id = ''init-A'', d_source = None, d_target = None, d_label = None,
                     d_constraint = None\<rparr>,
           e_position = Some \<lparr>pos_x = 0, pos_y = 0\<rparr>, e_locked = Some True,
           e_classes = Some ''init-node''\<rparr>,
          \<lparr>e_data = \<lparr>d_id = ''edge-init-A'', d_source = Some ''init-A'',
                     d_target = Some ''A'', d_label = None, d_constraint = Some ''init''\<rparr>,
           e_position = None, e_locked = None, e_classes = None\<rparr>] \<and>
       map (\<lambda>e. d_id (e_data e)) (filter (\<lambda>e. \<not> is_edge e) (assembled r)) =
         [''A'', ''B'', ''init-A''] \<and>
       map (\<lambda>e. d_id (e_data e)) (filter is_edge (assembled r)) = [''edge-init-A''] \<and>
       position_of (positioned r) ''A'' = Some fixedInitPosition"
  by (simp add: init_model_def effect_defs)

text \<open>
  Claim C9: after the layout every node init-X is at the final position of its anchor X,
  also when X is not the first init activity. With init constraints on A and on B, only
  A is locked at the origin; B is moved by the layout, here to (100, 50). The node
  init-B is locked, so the re-pinning does not move it: it stays at the origin.
\<close>

theorem second_init_node_stays:
  "\<exists>r. DeclareVisualizer_effect far_layout True (Some two_init_model) = Rendered r \<and>
       position_of (positioned r) ''A'' = Some \<lparr>pos_x = 0, pos_y = 0\<rparr> \<and>
       position_of (positioned r) ''init-A'' = Some \<lparr>pos_x = 0, pos_y = 0\<rparr> \<and>
       position_of (positioned r) ''B'' = Some \<lparr>pos_x = 100, pos_y = 50\<rparr> \<and>
       position_of (positioned r) ''init-B'' = Some \<lparr>pos_x = 0, pos_y = 0\<rparr>"
  by (simp add: two_init_model_def far_layout_def effect_defs)

text \<open>
  Claim C10: every descriptor returned by \<open>getConstraintEdges\<close> has the given source and
  target, unchanged, and no \<^verbatim>\<open>constraint\<close> field; among the elements the component
  assembles, the only ones with a \<^verbatim>\<open>constraint\<close> field are the edges of the init
  nodes, where the field is init.
\<close>

theorem constraint_field_only_on_init_edges:
  "(\<forall>e \<in> set (getConstraintEdges k s t i).
      d_source (e_data e) = Some s \<and> d_target (e_data e) = Some t \<and>
      d_constraint (e_data e) = None) \<and>
   (\<forall>r. DeclareVisualizer_effect lay c dm = Rendered r \<longrightarrow>
      (\<forall>e \<in> set (assembled r). d_constraint (e_data e) \<noteq> None \<longrightarrow>
         d_constraint (e_data e) = Some ''init'' \<and>
         (\<exists>a. e = init_edge (''init-'' @ a) a)))"
proof (intro conjI ballI allI impI)
  fix e assume "e \<in> set (getConstraintEdges k s t i)"
  from getConstraintEdges_fields [OF this]
  show "d_source (e_data e) = Some s" "d_target (e_data e) = Some t"
       "d_constraint (e_data e) = None" by simp_all
next
  fix r e
  assume r: "DeclareVisualizer_effect lay c dm = Rendered r"
    and e: "e \<in> set (assembled r)" and c: "d_constraint (e_data e) \<noteq> None"
  from effect_rendered [OF r] obtain m acts where "build lay m acts = Rendered r" by blast
  from build_assembled [OF this] obtain ia ns es cs where
    u: "unary_elements m = Inr (ns, es)" and
    a: "assembled r = map (activity_node ia) acts @ ns @ constraint_edges 0 cs @ es"
    by blast
  from e a c unary_elements_fields [OF u] have "\<exists>a. e = init_edge (''init-'' @ a) a"
    by (auto simp: activity_node_no_constraint dest: constraint_edges_no_constraint)
  then show "d_constraint (e_data e) = Some ''init''" "\<exists>a. e = init_edge (''init-'' @ a) a"
    by (auto simp: init_edge_def)
qed

theorem constraint_field_only_on_init_edges_witness:
  "getConstraintEdges ''succession'' ''A'' ''B'' 0 ! 1 =
     edge_def ''A->B-succession-0-sourcecircle'' ''A'' ''B'' ''succession-source-circle'' \<and>
   d_source (e_data (getConstraintEdges ''succession'' ''A'' ''B'' 0 ! 1)) = Some ''A'' \<and>
   d_target (e_data (getConstraintEdges ''succession'' ''A'' ''B'' 0 ! 1)) = Some ''B'' \<and>
   d_constraint (e_data (getConstraintEdges ''succession'' ''A'' ''B'' 0 ! 1)) = None \<and>
   (\<exists>r. DeclareVisualizer_effect far_layout True (Some succession_model) = Rendered r \<and>
        length (assembled r) = 8 \<and>
        assembled r ! 7 = init_edge ''init-A'' ''A'' \<and>
        d_constraint (e_data (assembled r ! 7)) = Some ''init'')"
proof -
  let ?es = "getConstraintEdges ''succession'' ''A'' ''B'' 0"
  have v: "?es ! 1 =
     edge_def ''A->B-succession-0-sourcecircle'' ''A'' ''B'' ''succession-source-circle''"
    by (simp add: eval_defs)
  have len: "length ?es = 4" by (simp add: eval_defs)
  then have mem: "?es ! 1 \<in> set ?es" by simp
  obtain r where r: "DeclareVisualizer_effect far_layout True (Some succession_model) = Rendered r"
    and l: "length (assembled r) = 8" and a: "assembled r ! 7 = init_edge ''init-A'' ''A''"
    by (simp add: succession_model_def far_layout_def effect_defs eval_defs)
  have m2: "assembled r ! 7 \<in> set (assembled r)" using l by simp
  have ne: "d_constraint (e_data (assembled r ! 7)) \<noteq> None" by (simp add: a init_edge_def)
  note T = constraint_field_only_on_init_edges
    [of "''succession''" "''A''" "''B''" 0 far_layout True "Some succession_model"]
  from T mem have 1: "d_source (e_data (?es ! 1)) = Some ''A'' \<and>
      d_target (e_data (?es ! 1)) = Some ''B'' \<and> d_constraint (e_data (?es ! 1)) = None"
    by blast
  from T r m2 ne have 2: "d_constraint (e_data (assembled r ! 7)) = Some ''init''"
    by blast
  from v 1 2 r l a show ?thesis by blast
qed

end
